theory Spec2Isabelle
  imports Complex_Main "HOL-Library.Word"
begin

section \<open>SceneManager.cpp: data model\<close>

text \<open>
  The embedding follows \<^verbatim>\<open>SceneManager.cpp\<close> function by function and keeps its
  names. Three things live outside that file and are taken as follows.

  \<^item> The C++ type \<^verbatim>\<open>float\<close> and the type \<^verbatim>\<open>glm::mat4\<close> are the type parameters
    \<open>'f\<close> and \<open>'m\<close>. The file never computes on a float itself: every number is
    either stored, copied, or handed to a glm function. The glm functions it calls are
    the fields of the record \<open>glm\<close> below, so that every theorem holds for whatever glm
    computes (rounding included).
  \<^item> \<^verbatim>\<open>int\<close> is modelled as \<open>int\<close>: the only arithmetic on it is \<^verbatim>\<open>index++\<close> and
    \<^verbatim>\<open>m_loadedTextures++\<close> from 0, far from the 32-bit limit. \<^verbatim>\<open>GLuint\<close> is
    \<open>32 word\<close>, since the file converts it to \<^verbatim>\<open>int\<close> and stores \<^verbatim>\<open>-1\<close> in it.
  \<^item> The member array \<^verbatim>\<open>m_textureIDs\<close> has 16 cells (the constructor initialises
    indices 0 to 15). The file indexes it with no bounds check, so the embedding keeps
    the cells as a store over all indices; an index outside \<open>{0..<16}\<close> stands for the
    memory next to the array. C++ gives no meaning to an access there, so the embedding
    is exact for the states with \<open>m_loadedTextures \<le> 16\<close> and for a load that starts
    below 16; what it says of a load that starts at 16 or above (the write lands in the
    cell of that index and nothing else changes) is the embedding's choice, and only
    shows that the code makes the access.
\<close>

datatype 'f vec2 = vec2 'f 'f
datatype 'f vec3 = vec3 'f 'f 'f
datatype 'f vec4 = vec4 'f 'f 'f 'f

record ('f, 'm) glm =
  glm_float :: "rat \<Rightarrow> 'f"
  glm_radians :: "'f \<Rightarrow> 'f"
  glm_scale :: "'f vec3 \<Rightarrow> 'm"
  glm_rotate :: "'f \<Rightarrow> 'f vec3 \<Rightarrow> 'm"
  glm_translate :: "'f vec3 \<Rightarrow> 'm"
  glm_mul :: "'m \<Rightarrow> 'm \<Rightarrow> 'm"

type_synonym GLuint = "32 word"

text \<open>
  The two structs are declared in the header; their fields are the ones
  \<^verbatim>\<open>SceneManager.cpp\<close> reads and writes. The material's \<^verbatim>\<open>tag\<close> is \<open>mtag\<close> here, the
  name \<open>tag\<close> being taken by the texture slot's field.
\<close>

record TEXTURE_INFO =
  tag :: string
  ID :: GLuint

record 'f OBJECT_MATERIAL =
  diffuseColor :: "'f vec3"
  specularColor :: "'f vec3"
  shininess :: 'f
  mtag :: string

subsection \<open>The OpenGL context and the image decoder\<close>

text \<open>
  The calls the file makes on OpenGL and stb_image are recorded in a trace, oldest first.
  \<open>glDeleteTextures\<close> is part of the interface and is never issued by this file.
\<close>

datatype gl_format = GL_RGB8 | GL_RGBA8

datatype gl_call =
    glGenTextures GLuint
  | glDeleteTextures GLuint
  | glBindTexture GLuint
  | glActiveTexture int
  | glTexParameteri_WRAP_S_REPEAT
  | glTexParameteri_WRAP_T_REPEAT
  | glTexParameteri_MIN_FILTER_LINEAR
  | glTexParameteri_MAG_FILTER_LINEAR
  | glTexImage2D gl_format int int
  | glGenerateMipmap
  | stbi_set_flip_vertically_on_load bool
  | stbi_image_free

record gl_context =
  next_name :: GLuint
  textures :: "GLuint list"
  calls :: "gl_call list"

definition issue :: "gl_call \<Rightarrow> gl_context \<Rightarrow> gl_context" where
  "issue c ctx = ctx\<lparr>calls := calls ctx @ [c]\<rparr>"

text \<open>
  \<^verbatim>\<open>glGenTextures(1, &id)\<close>: the driver hands out a name that is not in use and
  marks it allocated. The model's driver numbers them consecutively.
\<close>

definition gen_texture :: "gl_context \<Rightarrow> GLuint \<times> gl_context" where
  "gen_texture ctx =
     (next_name ctx,
      ctx\<lparr>next_name := next_name ctx + 1,
          textures := textures ctx @ [next_name ctx],
          calls := calls ctx @ [glGenTextures (next_name ctx)]\<rparr>)"

record stb_image =
  width :: int
  height :: int
  colorChannels :: int
  pixels :: "8 word list"

subsection \<open>The shader manager\<close>

text \<open>
  Modelled from the spec: \<^verbatim>\<open>ShaderManager\<close> is not part of \<^verbatim>\<open>SceneManager.cpp\<close>. The
  spec describes it as a sink that ``accepts named parameters of kinds matrix4, vec2,
  vec3, vec4, float, int, bool, texture-sampler'': each setter stores the value under
  the name, replacing what was bound there.
\<close>

datatype ('f, 'm) uniform =
    Mat4V 'm
  | Vec2V "'f vec2"
  | Vec3V "'f vec3"
  | Vec4V "'f vec4"
  | FloatV 'f
  | IntV int
  | BoolV bool
  | Sampler2DV int

type_synonym ('f, 'm) ShaderManager = "string \<Rightarrow> ('f, 'm) uniform option"

definition setMat4Value :: "string \<Rightarrow> 'm \<Rightarrow> ('f, 'm) ShaderManager \<Rightarrow> ('f, 'm) ShaderManager" where
  "setMat4Value name v sh = sh(name \<mapsto> Mat4V v)"

definition setVec2Value :: "string \<Rightarrow> 'f vec2 \<Rightarrow> ('f, 'm) ShaderManager \<Rightarrow> ('f, 'm) ShaderManager" where
  "setVec2Value name v sh = sh(name \<mapsto> Vec2V v)"

definition setVec3Value :: "string \<Rightarrow> 'f vec3 \<Rightarrow> ('f, 'm) ShaderManager \<Rightarrow> ('f, 'm) ShaderManager" where
  "setVec3Value name v sh = sh(name \<mapsto> Vec3V v)"

definition setVec4Value :: "string \<Rightarrow> 'f vec4 \<Rightarrow> ('f, 'm) ShaderManager \<Rightarrow> ('f, 'm) ShaderManager" where
  "setVec4Value name v sh = sh(name \<mapsto> Vec4V v)"

definition setFloatValue :: "string \<Rightarrow> 'f \<Rightarrow> ('f, 'm) ShaderManager \<Rightarrow> ('f, 'm) ShaderManager" where
  "setFloatValue name v sh = sh(name \<mapsto> FloatV v)"

definition setIntValue :: "string \<Rightarrow> int \<Rightarrow> ('f, 'm) ShaderManager \<Rightarrow> ('f, 'm) ShaderManager" where
  "setIntValue name v sh = sh(name \<mapsto> IntV v)"

definition setBoolValue :: "string \<Rightarrow> bool \<Rightarrow> ('f, 'm) ShaderManager \<Rightarrow> ('f, 'm) ShaderManager" where
  "setBoolValue name v sh = sh(name \<mapsto> BoolV v)"

definition setSampler2DValue :: "string \<Rightarrow> int \<Rightarrow> ('f, 'm) ShaderManager \<Rightarrow> ('f, 'm) ShaderManager" where
  "setSampler2DValue name v sh = sh(name \<mapsto> Sampler2DV v)"

subsection \<open>The scene manager's state\<close>

text \<open>
  \<open>m_pShaderManager\<close> is \<open>None\<close> for the null pointer. \<open>gl\<close> is the OpenGL context
  the methods act on. The mesh object \<^verbatim>\<open>m_basicMeshes\<close> and console output take no part
  in the functions below and are left out.
\<close>

record ('f, 'm) SceneManager =
  m_pShaderManager :: "('f, 'm) ShaderManager option"
  m_textureIDs :: "int \<Rightarrow> TEXTURE_INFO"
  m_loadedTextures :: int
  m_objectMaterials :: "'f OBJECT_MATERIAL list"
  gl :: gl_context

datatype error = NullPointerDereference

definition g_ModelName :: string where "g_ModelName = ''model''"
definition g_ColorValueName :: string where "g_ColorValueName = ''objectColor''"
definition g_TextureValueName :: string where "g_TextureValueName = ''objectTexture''"
definition g_UseTextureName :: string where "g_UseTextureName = ''bUseTexture''"
definition g_UseLightingName :: string where "g_UseLightingName = ''bUseLighting''"

text \<open>\<^verbatim>\<open>for (int i = lo; i < hi; i++) body(i)\<close>, for a body that leaves the bound alone.\<close>

function for_loop :: "int \<Rightarrow> int \<Rightarrow> (int \<Rightarrow> 's \<Rightarrow> 's) \<Rightarrow> 's \<Rightarrow> 's" where
  "for_loop i hi body s = (if i < hi then for_loop (i + 1) hi body (body i s) else s)"
  by pat_completeness auto
termination
  by (relation "measure (\<lambda>(i, hi, body, s). nat (hi - i))") auto

declare for_loop.simps [simp del]

section \<open>Texture registry\<close>

text \<open>
  The constructor (lines 34--47). \<open>beside\<close> is what the memory next to the array holds;
  the vector of materials starts empty.
\<close>

definition SceneManager_ctor ::
  "('f, 'm) ShaderManager option \<Rightarrow> (int \<Rightarrow> TEXTURE_INFO) \<Rightarrow> gl_context \<Rightarrow> ('f, 'm) SceneManager" where
  "SceneManager_ctor pShaderManager beside ctx =
     for_loop 0 16
       (\<lambda>i s. s\<lparr>m_textureIDs := (m_textureIDs s)(i := \<lparr>tag = ''/0'', ID = - 1\<rparr>)\<rparr>)
       \<lparr>m_pShaderManager = pShaderManager, m_textureIDs = beside, m_loadedTextures = 0,
        m_objectMaterials = [], gl = ctx\<rparr>
     \<lparr>m_loadedTextures := 0\<rparr>"

text \<open>
  \<^verbatim>\<open>CreateGLTexture\<close> (lines 76--140). \<open>stbi_load\<close> is the decoder applied to the file
  system: \<open>None\<close> is the null pointer it returns for a file it cannot read. The result
  is the returned flag and the state after the call. The \<^verbatim>\<open>else\<close> branch of the channel
  test returns at once: the texture stays bound and the image is not freed. Lines 129--131
  write cell \<^verbatim>\<open>m_loadedTextures\<close> with no capacity test: the definition is the source's
  behaviour when the call starts with \<open>m_loadedTextures < 16\<close>, and from 16 on the write
  is outside the array.
\<close>

definition CreateGLTexture ::
  "(string \<Rightarrow> stb_image option) \<Rightarrow> string \<Rightarrow> string \<Rightarrow> ('f, 'm) SceneManager
     \<Rightarrow> bool \<times> ('f, 'm) SceneManager" where
  "CreateGLTexture stbi_load filename tg s =
     (let c0 = issue (stbi_set_flip_vertically_on_load True) (gl s)
      in case stbi_load filename of
        Some img \<Rightarrow>
          (let (textureID, c1) = gen_texture c0;
               c2 = issue (glBindTexture textureID) c1;
               c3 = issue glTexParameteri_WRAP_S_REPEAT c2;
               c4 = issue glTexParameteri_WRAP_T_REPEAT c3;
               c5 = issue glTexParameteri_MIN_FILTER_LINEAR c4;
               c6 = issue glTexParameteri_MAG_FILTER_LINEAR c5;
               uploaded =
                 (if colorChannels img = 3
                    then Some (issue (glTexImage2D GL_RGB8 (width img) (height img)) c6)
                  else if colorChannels img = 4
                    then Some (issue (glTexImage2D GL_RGBA8 (width img) (height img)) c6)
                  else None)
           in case uploaded of
                None \<Rightarrow> (False, s\<lparr>gl := c6\<rparr>)
              | Some c7 \<Rightarrow>
                  (let c8 = issue glGenerateMipmap c7;
                       c9 = issue stbi_image_free c8;
                       c10 = issue (glBindTexture 0) c9;
                       s1 = s\<lparr>gl := c10\<rparr>;
                       s2 = s1\<lparr>m_textureIDs := (m_textureIDs s1)
                              (m_loadedTextures s1 :=
                                 (m_textureIDs s1 (m_loadedTextures s1))\<lparr>ID := textureID\<rparr>)\<rparr>;
                       s3 = s2\<lparr>m_textureIDs := (m_textureIDs s2)
                              (m_loadedTextures s2 :=
                                 (m_textureIDs s2 (m_loadedTextures s2))\<lparr>tag := tg\<rparr>)\<rparr>;
                       s4 = s3\<lparr>m_loadedTextures := m_loadedTextures s3 + 1\<rparr>
                   in (True, s4)))
      | None \<Rightarrow> (False, s\<lparr>gl := c0\<rparr>))"

text \<open>\<^verbatim>\<open>BindGLTextures\<close> (lines 148--156).\<close>

definition BindGLTextures :: "('f, 'm) SceneManager \<Rightarrow> ('f, 'm) SceneManager" where
  "BindGLTextures s =
     for_loop 0 (m_loadedTextures s)
       (\<lambda>i s'. s'\<lparr>gl := issue (glBindTexture (ID (m_textureIDs s' i)))
                          (issue (glActiveTexture i) (gl s'))\<rparr>)
       s"

text \<open>
  \<^verbatim>\<open>DestroyGLTextures\<close> (lines 164--170): the loop body is
  \<^verbatim>\<open>glGenTextures(1, &m_textureIDs[i].ID)\<close>, which writes the new name into the slot.
\<close>

definition DestroyGLTextures :: "('f, 'm) SceneManager \<Rightarrow> ('f, 'm) SceneManager" where
  "DestroyGLTextures s =
     for_loop 0 (m_loadedTextures s)
       (\<lambda>i s'. let (name, c) = gen_texture (gl s')
               in s'\<lparr>m_textureIDs := (m_textureIDs s')(i := (m_textureIDs s' i)\<lparr>ID := name\<rparr>),
                     gl := c\<rparr>)
       s"

text \<open>
  \<^verbatim>\<open>FindTextureID\<close> (lines 178--196). The loop state is the three locals; the stored
  \<^verbatim>\<open>GLuint\<close> is converted to \<^verbatim>\<open>int\<close> by the assignment to \<^verbatim>\<open>textureID\<close>.
\<close>

function FindTextureID_while ::
  "('f, 'm) SceneManager \<Rightarrow> string \<Rightarrow> int \<Rightarrow> int \<Rightarrow> bool \<Rightarrow> int \<times> int \<times> bool" where
  "FindTextureID_while s tg textureID index bFound =
     (if index < m_loadedTextures s \<and> bFound = False then
        (if tag (m_textureIDs s index) = tg
         then FindTextureID_while s tg (sint (ID (m_textureIDs s index))) index True
         else FindTextureID_while s tg textureID (index + 1) bFound)
      else (textureID, index, bFound))"
  by pat_completeness auto
termination
  by (relation "measure (\<lambda>(s, tg, textureID, index, bFound).
        2 * nat (m_loadedTextures s - index) + (if bFound then 0 else 1))") auto

declare FindTextureID_while.simps [simp del]

definition FindTextureID :: "('f, 'm) SceneManager \<Rightarrow> string \<Rightarrow> int" where
  "FindTextureID s tg = fst (FindTextureID_while s tg (- 1) 0 False)"

text \<open>\<^verbatim>\<open>FindTextureSlot\<close> (lines 204--222).\<close>

function FindTextureSlot_while ::
  "('f, 'm) SceneManager \<Rightarrow> string \<Rightarrow> int \<Rightarrow> int \<Rightarrow> bool \<Rightarrow> int \<times> int \<times> bool" where
  "FindTextureSlot_while s tg textureSlot index bFound =
     (if index < m_loadedTextures s \<and> bFound = False then
        (if tag (m_textureIDs s index) = tg
         then FindTextureSlot_while s tg index index True
         else FindTextureSlot_while s tg textureSlot (index + 1) bFound)
      else (textureSlot, index, bFound))"
  by pat_completeness auto
termination
  by (relation "measure (\<lambda>(s, tg, textureSlot, index, bFound).
        2 * nat (m_loadedTextures s - index) + (if bFound then 0 else 1))") auto

declare FindTextureSlot_while.simps [simp del]

definition FindTextureSlot :: "('f, 'm) SceneManager \<Rightarrow> string \<Rightarrow> int" where
  "FindTextureSlot s tg = fst (FindTextureSlot_while s tg (- 1) 0 False)"

text \<open>
  A caller that issues one \<^verbatim>\<open>CreateGLTexture\<close> per (file name, tag) pair and drops the
  returned flags, as \<^verbatim>\<open>LoadSceneTextures\<close> (lines 445--469) does for its four textures.
\<close>

fun load_sequence ::
  "(string \<Rightarrow> stb_image option) \<Rightarrow> (string \<times> string) list \<Rightarrow> ('f, 'm) SceneManager
     \<Rightarrow> ('f, 'm) SceneManager" where
  "load_sequence stbi_load [] s = s"
| "load_sequence stbi_load ((filename, tg) # rest) s =
     load_sequence stbi_load rest (snd (CreateGLTexture stbi_load filename tg s))"

definition LoadSceneTextures ::
  "(string \<Rightarrow> stb_image option) \<Rightarrow> ('f, 'm) SceneManager \<Rightarrow> ('f, 'm) SceneManager" where
  "LoadSceneTextures stbi_load s =
     BindGLTextures (load_sequence stbi_load
       [(''textures/marble.png'', ''marbleFloor''),
        (''textures/berry.jpg'', ''berry''),
        (''textures/pancake_face.jpg'', ''pancakeFace''),
        (''textures/brickWall.png'', ''brick'')] s)"

section \<open>Material registry\<close>

text \<open>
  \<^verbatim>\<open>FindMaterial\<close> (lines 230--255). \<open>material\<close> is the reference parameter: the
  value the caller's object holds on entry goes in, the value it holds on return comes
  out beside the returned flag. The loop compares the \<^verbatim>\<open>int\<close> index with the unsigned
  \<^verbatim>\<open>size()\<close>: a negative index would convert to a huge unsigned value and fail the
  test, hence \<open>0 \<le> index\<close>. The vector is read below its size only.
\<close>

function FindMaterial_while ::
  "'f OBJECT_MATERIAL list \<Rightarrow> string \<Rightarrow> int \<Rightarrow> bool \<Rightarrow> 'f OBJECT_MATERIAL
     \<Rightarrow> int \<times> bool \<times> 'f OBJECT_MATERIAL" where
  "FindMaterial_while ms tg index bFound material =
     (if 0 \<le> index \<and> index < int (length ms) \<and> bFound = False then
        (if mtag (ms ! nat index) = tg
         then FindMaterial_while ms tg index True
                (material\<lparr>diffuseColor := diffuseColor (ms ! nat index),
                          specularColor := specularColor (ms ! nat index),
                          shininess := shininess (ms ! nat index)\<rparr>)
         else FindMaterial_while ms tg (index + 1) bFound material)
      else (index, bFound, material))"
  by pat_completeness auto
termination
  by (relation "measure (\<lambda>(ms, tg, index, bFound, material).
        2 * nat (int (length ms) - index) + (if bFound then 0 else 1))") auto

declare FindMaterial_while.simps [simp del]

definition FindMaterial ::
  "('f, 'm) SceneManager \<Rightarrow> string \<Rightarrow> 'f OBJECT_MATERIAL \<Rightarrow> bool \<times> 'f OBJECT_MATERIAL" where
  "FindMaterial s tg material =
     (if length (m_objectMaterials s) = 0 then (False, material)
      else (let (index, bFound, material') =
                  FindMaterial_while (m_objectMaterials s) tg 0 False material
            in (True, material')))"

text \<open>\<^verbatim>\<open>DefineObjectMaterials\<close> (lines 390--403).\<close>

definition DefineObjectMaterials ::
  "('f, 'm) glm \<Rightarrow> 'f OBJECT_MATERIAL \<Rightarrow> ('f, 'm) SceneManager \<Rightarrow> ('f, 'm) SceneManager" where
  "DefineObjectMaterials G whiteMat0 s =
     (let whiteMat = whiteMat0
            \<lparr>diffuseColor := vec3 (glm_float G 1) (glm_float G 1) (glm_float G 1),
             specularColor := vec3 (glm_float G (4 / 10)) (glm_float G (4 / 10)) (glm_float G (4 / 10)),
             shininess := glm_float G 32,
             mtag := ''default''\<rparr>
      in s\<lparr>m_objectMaterials := m_objectMaterials s @ [whiteMat]\<rparr>)"

section \<open>Transform and shader state\<close>

text \<open>
  \<^verbatim>\<open>SetTransformations\<close> (lines 263--293). The C++ product
  \<^verbatim>\<open>translation * rotationZ * rotationY * rotationX * scale\<close> associates to the left.
\<close>

definition SetTransformations ::
  "('f, 'm) glm \<Rightarrow> 'f vec3 \<Rightarrow> 'f \<Rightarrow> 'f \<Rightarrow> 'f \<Rightarrow> 'f vec3 \<Rightarrow> ('f, 'm) SceneManager
     \<Rightarrow> ('f, 'm) SceneManager" where
  "SetTransformations G scaleXYZ XrotationDegrees YrotationDegrees ZrotationDegrees positionXYZ s =
     (let scale = glm_scale G scaleXYZ;
          rotationX = glm_rotate G (glm_radians G XrotationDegrees)
                        (vec3 (glm_float G 1) (glm_float G 0) (glm_float G 0));
          rotationY = glm_rotate G (glm_radians G YrotationDegrees)
                        (vec3 (glm_float G 0) (glm_float G 1) (glm_float G 0));
          rotationZ = glm_rotate G (glm_radians G ZrotationDegrees)
                        (vec3 (glm_float G 0) (glm_float G 0) (glm_float G 1));
          translation = glm_translate G positionXYZ;
          modelView = glm_mul G (glm_mul G (glm_mul G (glm_mul G translation rotationZ) rotationY)
                                   rotationX) scale
      in case m_pShaderManager s of
           Some sh \<Rightarrow> s\<lparr>m_pShaderManager := Some (setMat4Value g_ModelName modelView sh)\<rparr>
         | None \<Rightarrow> s)"

text \<open>
  The composition as the specification words it:
  \<open>model = Translate(position) \<cdot> RotateZ(degToRad(rz)) \<cdot> RotateY(degToRad(ry)) \<cdot>
  RotateX(degToRad(rx)) \<cdot> Scale(scale)\<close>, each rotation about its canonical unit axis.
\<close>

definition spec_degToRad :: "('f, 'm) glm \<Rightarrow> 'f \<Rightarrow> 'f" where
  "spec_degToRad G d = glm_radians G d"

definition spec_Translate :: "('f, 'm) glm \<Rightarrow> 'f vec3 \<Rightarrow> 'm" where
  "spec_Translate G p = glm_translate G p"

definition spec_Scale :: "('f, 'm) glm \<Rightarrow> 'f vec3 \<Rightarrow> 'm" where
  "spec_Scale G v = glm_scale G v"

definition spec_RotateX :: "('f, 'm) glm \<Rightarrow> 'f \<Rightarrow> 'm" where
  "spec_RotateX G t = glm_rotate G t (vec3 (glm_float G 1) (glm_float G 0) (glm_float G 0))"

definition spec_RotateY :: "('f, 'm) glm \<Rightarrow> 'f \<Rightarrow> 'm" where
  "spec_RotateY G t = glm_rotate G t (vec3 (glm_float G 0) (glm_float G 1) (glm_float G 0))"

definition spec_RotateZ :: "('f, 'm) glm \<Rightarrow> 'f \<Rightarrow> 'm" where
  "spec_RotateZ G t = glm_rotate G t (vec3 (glm_float G 0) (glm_float G 0) (glm_float G 1))"

definition spec_product :: "('f, 'm) glm \<Rightarrow> 'm list \<Rightarrow> 'm" where
  "spec_product G ms = foldl (glm_mul G) (hd ms) (tl ms)"

definition spec_Compose ::
  "('f, 'm) glm \<Rightarrow> 'f vec3 \<Rightarrow> 'f \<Rightarrow> 'f \<Rightarrow> 'f \<Rightarrow> 'f vec3 \<Rightarrow> 'm" where
  "spec_Compose G scl rx ry rz position =
     spec_product G
       [spec_Translate G position,
        spec_RotateZ G (spec_degToRad G rz),
        spec_RotateY G (spec_degToRad G ry),
        spec_RotateX G (spec_degToRad G rx),
        spec_Scale G scl]"

text \<open>\<^verbatim>\<open>SetShaderColor\<close> (lines 301--320). The \<^verbatim>\<open>false\<close> passed to \<^verbatim>\<open>setIntValue\<close> is
  converted to the \<^verbatim>\<open>int\<close> 0.\<close>

definition SetShaderColor ::
  "'f \<Rightarrow> 'f \<Rightarrow> 'f \<Rightarrow> 'f \<Rightarrow> ('f, 'm) SceneManager \<Rightarrow> ('f, 'm) SceneManager" where
  "SetShaderColor redColorValue greenColorValue blueColorValue alphaValue s =
     (let currentColor = vec4 redColorValue greenColorValue blueColorValue alphaValue
      in case m_pShaderManager s of
           Some sh \<Rightarrow> s\<lparr>m_pShaderManager :=
                         Some (setVec4Value g_ColorValueName currentColor
                                (setIntValue g_UseTextureName (of_bool False) sh))\<rparr>
         | None \<Rightarrow> s)"

text \<open>\<^verbatim>\<open>SetShaderTexture\<close> (lines 328--339).\<close>

definition SetShaderTexture :: "string \<Rightarrow> ('f, 'm) SceneManager \<Rightarrow> ('f, 'm) SceneManager" where
  "SetShaderTexture textureTag s =
     (case m_pShaderManager s of
        Some sh \<Rightarrow>
          (let sh1 = setIntValue g_UseTextureName (of_bool True) sh;
               textureID = FindTextureSlot s textureTag
           in s\<lparr>m_pShaderManager := Some (setSampler2DValue g_TextureValueName textureID sh1)\<rparr>)
      | None \<Rightarrow> s)"

text \<open>\<^verbatim>\<open>SetTextureUVScale\<close> (lines 347--353).\<close>

definition SetTextureUVScale :: "'f \<Rightarrow> 'f \<Rightarrow> ('f, 'm) SceneManager \<Rightarrow> ('f, 'm) SceneManager" where
  "SetTextureUVScale u v s =
     (case m_pShaderManager s of
        Some sh \<Rightarrow> s\<lparr>m_pShaderManager := Some (setVec2Value ''UVscale'' (vec2 u v) sh)\<rparr>
      | None \<Rightarrow> s)"

text \<open>
  \<^verbatim>\<open>SetShaderMaterial\<close> (lines 361--377). The local \<^verbatim>\<open>material\<close> is declared without
  an initialiser; \<open>material0\<close> is what it holds before \<^verbatim>\<open>FindMaterial\<close> is called. The
  three setters go through \<^verbatim>\<open>m_pShaderManager\<close> with no null test.
\<close>

definition SetShaderMaterial ::
  "'f OBJECT_MATERIAL \<Rightarrow> string \<Rightarrow> ('f, 'm) SceneManager \<Rightarrow> error + ('f, 'm) SceneManager" where
  "SetShaderMaterial material0 materialTag s =
     (if length (m_objectMaterials s) > 0 then
        (let (bReturn, material) = FindMaterial s materialTag material0
         in if bReturn = True then
              (case m_pShaderManager s of
                 None \<Rightarrow> Inl NullPointerDereference
               | Some sh \<Rightarrow>
                   Inr (s\<lparr>m_pShaderManager := Some
                         (setFloatValue ''material.shininess'' (shininess material)
                           (setVec3Value ''material.specularColor'' (specularColor material)
                             (setVec3Value ''material.diffuseColor'' (diffuseColor material) sh)))\<rparr>))
            else Inr s)
      else Inr s)"

section \<open>Lights\<close>

text \<open>\<^verbatim>\<open>std::to_string\<close> on an \<^verbatim>\<open>int\<close>: the decimal digits, with a sign when negative.\<close>

function decimal :: "nat \<Rightarrow> string" where
  "decimal n = (if n < 10 then [''0123456789'' ! n]
                else decimal (n div 10) @ [''0123456789'' ! (n mod 10)])"
  by pat_completeness auto
termination
  by (relation "measure id") auto

declare decimal.simps [simp del]

definition to_string :: "int \<Rightarrow> string" where
  "to_string i = (if i < 0 then CHR ''-'' # decimal (nat (- i)) else decimal (nat i))"

text \<open>
  \<^verbatim>\<open>SetupSceneLights\<close> (lines 411--435). Every statement goes through
  \<^verbatim>\<open>m_pShaderManager\<close> with no null test.
\<close>

definition SetupSceneLights ::
  "('f, 'm) glm \<Rightarrow> ('f, 'm) SceneManager \<Rightarrow> error + ('f, 'm) SceneManager" where
  "SetupSceneLights G s =
     (case m_pShaderManager s of
        None \<Rightarrow> Inl NullPointerDereference
      | Some sh \<Rightarrow>
          (let f = glm_float G;
               sh1 = setBoolValue g_UseLightingName True sh;
               sh2 = setBoolValue ''spotLight.bActive'' False sh1;
               sh3 = for_loop 0 4
                       (\<lambda>i. setBoolValue (''pointLights['' @ to_string i @ ''].bActive'') False) sh2;
               sh4 = setVec3Value ''directionalLight.direction''
                       (vec3 (f (- 3 / 10)) (f (- 1)) (f (- 3 / 10))) sh3;
               sh5 = setVec3Value ''directionalLight.ambient''
                       (vec3 (f (2 / 10)) (f (2 / 10)) (f (2 / 10))) sh4;
               sh6 = setVec3Value ''directionalLight.diffuse''
                       (vec3 (f (5 / 10)) (f (5 / 10)) (f (5 / 10))) sh5;
               sh7 = setVec3Value ''directionalLight.specular''
                       (vec3 (f (7 / 10)) (f (7 / 10)) (f (7 / 10))) sh6;
               sh8 = setBoolValue ''directionalLight.bActive'' True sh7;
               sh9 = setVec3Value ''pointLights[0].position''
                       (vec3 (f 0) (f 5) (f 1)) sh8;
               sh10 = setVec3Value ''pointLights[0].ambient''
                       (vec3 (f (1 / 10)) (f (9 / 100)) (f (8 / 100))) sh9;
               sh11 = setVec3Value ''pointLights[0].diffuse''
                       (vec3 (f (6 / 10)) (f (5 / 10)) (f (4 / 10))) sh10;
               sh12 = setVec3Value ''pointLights[0].specular''
                       (vec3 (f (4 / 10)) (f (3 / 10)) (f (2 / 10))) sh11;
               sh13 = setBoolValue ''pointLights[0].bActive'' True sh12
           in Inr (s\<lparr>m_pShaderManager := Some sh13\<rparr>)))"

section \<open>Observations and concrete inputs\<close>

text \<open>
  \<open>decodes\<close>: the decoder returns an image for the file and the image has 3 or 4 channels;
  these are the two tests \<^verbatim>\<open>CreateGLTexture\<close> makes before it registers a texture.
\<close>

definition decodes :: "(string \<Rightarrow> stb_image option) \<Rightarrow> string \<Rightarrow> bool" where
  "decodes stbi_load filename =
     (case stbi_load filename of
        None \<Rightarrow> False
      | Some img \<Rightarrow> colorChannels img = 3 \<or> colorChannels img = 4)"

text \<open>\<open>pushed r name\<close>: the value bound to a uniform in the shader after a call.\<close>

definition pushed :: "error + ('f, 'm) SceneManager \<Rightarrow> string \<Rightarrow> ('f, 'm) uniform option" where
  "pushed r name =
     (case r of
        Inl e \<Rightarrow> None
      | Inr s \<Rightarrow> (case m_pShaderManager s of None \<Rightarrow> None | Some sh \<Rightarrow> sh name))"

text \<open>
  Inputs on which the functions are run below. \<open>glm_symbolic\<close> stands in for glm: a
  float is the literal itself, a matrix is the list of elementary transforms multiplied,
  in order. \<open>rgb_decoder\<close> fails on one file, returns a one-channel image for another
  and an RGB image for every other file.
\<close>

datatype 'f elementary = Scale "'f vec3" | Rotate 'f "'f vec3" | Translate "'f vec3"

definition glm_symbolic :: "(rat, rat elementary list) glm" where
  "glm_symbolic =
     \<lparr>glm_float = (\<lambda>q. q),
      glm_radians = (\<lambda>d. d * (355 / 113) / 180),
      glm_scale = (\<lambda>v. [Scale v]),
      glm_rotate = (\<lambda>t v. [Rotate t v]),
      glm_translate = (\<lambda>v. [Translate v]),
      glm_mul = (\<lambda>m n. m @ n)\<rparr>"

definition fresh_context :: gl_context where
  "fresh_context = \<lparr>next_name = 1, textures = [], calls = []\<rparr>"

definition fresh_scene :: "(rat, rat elementary list) SceneManager" where
  "fresh_scene = SceneManager_ctor (Some Map.empty) (\<lambda>i. \<lparr>tag = [], ID = 0\<rparr>) fresh_context"

definition rgb_decoder :: "string \<Rightarrow> stb_image option" where
  "rgb_decoder filename =
     (if filename = ''textures/missing.png'' then None
      else if filename = ''textures/gray.png''
        then Some \<lparr>width = 1, height = 1, colorChannels = 1, pixels = [0]\<rparr>
      else Some \<lparr>width = 1, height = 1, colorChannels = 3, pixels = [0, 0, 0]\<rparr>)"

definition blank_material :: "rat OBJECT_MATERIAL" where
  "blank_material =
     \<lparr>diffuseColor = vec3 0 0 0, specularColor = vec3 0 0 0, shininess = 0, mtag = []\<rparr>"

definition three_loads :: "(rat, rat elementary list) SceneManager" where
  "three_loads =
     load_sequence rgb_decoder
       [(''textures/marble.png'', ''marbleFloor''),
        (''textures/berry.jpg'', ''berry''),
        (''textures/marble2.png'', ''marbleFloor'')] fresh_scene"

section \<open>Loops\<close>

lemma for_loop_step [simp]:
  "i < hi \<Longrightarrow> for_loop i hi body s = for_loop (i + 1) hi body (body i s)"
  by (subst for_loop.simps) simp

lemma for_loop_done [simp]: "\<not> i < hi \<Longrightarrow> for_loop i hi body s = s"
  by (subst for_loop.simps) simp

lemma for_loop_invariant:
  assumes "\<And>i s. P s \<Longrightarrow> P (body i s)" and "P s"
  shows "P (for_loop i hi body s)"
  using assms(2)
proof (induction "nat (hi - i)" arbitrary: i s)
  case 0
  then show ?case by simp
next
  case (Suc k)
  then have "i < hi" by linarith
  moreover from Suc(2) have "k = nat (hi - (i + 1))" by linarith
  ultimately show ?case using Suc(1) [of "i + 1" "body i s"] assms(1) Suc(3) by simp
qed

lemma for_loop_fill:
  "m_textureIDs (for_loop lo hi (\<lambda>i s. s\<lparr>m_textureIDs := (m_textureIDs s)(i := c)\<rparr>) s) j =
     (if lo \<le> j \<and> j < hi then c else m_textureIDs s j)"
proof (induction "nat (hi - lo)" arbitrary: lo s)
  case 0
  then show ?case by auto
next
  case (Suc k)
  then have "lo < hi" by linarith
  moreover from Suc(2) have "k = nat (hi - (lo + 1))" by linarith
  ultimately show ?case using Suc(1) [of "lo + 1"] by auto
qed

section \<open>The constructor's state\<close>

lemma ctor_fields:
  "m_loadedTextures (SceneManager_ctor p beside ctx) = 0"
  "m_pShaderManager (SceneManager_ctor p beside ctx) = p"
  "m_objectMaterials (SceneManager_ctor p beside ctx) = []"
  "gl (SceneManager_ctor p beside ctx) = ctx"
proof -
  let ?body = "\<lambda>(i::int) (s::('a, 'b) SceneManager).
                 s\<lparr>m_textureIDs := (m_textureIDs s)(i := \<lparr>tag = ''/0'', ID = - 1\<rparr>)\<rparr>"
  let ?init = "\<lparr>m_pShaderManager = p, m_textureIDs = beside, m_loadedTextures = 0,
               m_objectMaterials = [], gl = ctx\<rparr>"
  have "m_pShaderManager (for_loop 0 16 ?body ?init) = p
        \<and> m_objectMaterials (for_loop 0 16 ?body ?init) = []
        \<and> gl (for_loop 0 16 ?body ?init) = ctx"
    by (rule for_loop_invariant) simp_all
  then show "m_loadedTextures (SceneManager_ctor p beside ctx) = 0"
    "m_pShaderManager (SceneManager_ctor p beside ctx) = p"
    "m_objectMaterials (SceneManager_ctor p beside ctx) = []"
    "gl (SceneManager_ctor p beside ctx) = ctx"
    by (simp_all add: SceneManager_ctor_def)
qed

lemma ctor_cells:
  "m_textureIDs (SceneManager_ctor p beside ctx) i =
     (if 0 \<le> i \<and> i < 16 then \<lparr>tag = ''/0'', ID = - 1\<rparr> else beside i)"
  by (simp add: SceneManager_ctor_def for_loop_fill del: for_loop_step for_loop_done)

section \<open>Texture lookup\<close>

lemma FindTextureSlot_while_found [simp]:
  "FindTextureSlot_while s tg ts i True = (ts, i, True)"
  by (simp add: FindTextureSlot_while.simps)

lemma FindTextureID_while_found [simp]:
  "FindTextureID_while s tg tid i True = (tid, i, True)"
  by (simp add: FindTextureID_while.simps)

text \<open>One more cell in front of a scanned range: the two facts the loop proofs share.\<close>

lemma scan_step:
  fixes i r ts n :: int
  assumes "(r = ts \<and> (\<forall>j. i + 1 \<le> j \<and> j < n \<longrightarrow> P j))
     \<or> (i + 1 \<le> r \<and> r < n \<and> \<not> P r \<and> (\<forall>j. i + 1 \<le> j \<and> j < r \<longrightarrow> P j))"
    and "P i"
  shows "(r = ts \<and> (\<forall>j. i \<le> j \<and> j < n \<longrightarrow> P j))
     \<or> (i \<le> r \<and> r < n \<and> \<not> P r \<and> (\<forall>j. i \<le> j \<and> j < r \<longrightarrow> P j))"
proof -
  have split: "j = i \<or> i + 1 \<le> j" if "i \<le> j" for j :: int
    using that by linarith
  from assms show ?thesis
    by (auto dest: split)
qed

lemma agree_step:
  fixes i r ts n q tid :: int
  assumes "(r = ts \<and> q = tid \<and> (\<forall>j. i + 1 \<le> j \<and> j < n \<longrightarrow> P j)) \<or> (i + 1 \<le> r \<and> Q)"
    and "P i"
  shows "(r = ts \<and> q = tid \<and> (\<forall>j. i \<le> j \<and> j < n \<longrightarrow> P j)) \<or> (i \<le> r \<and> Q)"
proof -
  have split: "j = i \<or> i + 1 \<le> j" if "i \<le> j" for j :: int
    using that by linarith
  from assms show ?thesis
    by (auto dest: split)
qed

text \<open>
  From index \<open>i\<close> on, the loop either leaves \<open>textureSlot\<close> alone, and then no cell of
  the range carries the tag, or stops at the first cell that does.
\<close>

lemma FindTextureSlot_while_scan:
  "(fst (FindTextureSlot_while s tg ts i False) = ts \<and>
      (\<forall>j. i \<le> j \<and> j < m_loadedTextures s \<longrightarrow> tag (m_textureIDs s j) \<noteq> tg))
   \<or> (i \<le> fst (FindTextureSlot_while s tg ts i False) \<and>
       fst (FindTextureSlot_while s tg ts i False) < m_loadedTextures s \<and>
       \<not> tag (m_textureIDs s (fst (FindTextureSlot_while s tg ts i False))) \<noteq> tg \<and>
       (\<forall>j. i \<le> j \<and> j < fst (FindTextureSlot_while s tg ts i False)
              \<longrightarrow> tag (m_textureIDs s j) \<noteq> tg))"
proof (induction "nat (m_loadedTextures s - i)" arbitrary: i)
  case 0
  then have "\<not> i < m_loadedTextures s" by simp
  then show ?case by (auto simp add: FindTextureSlot_while.simps)
next
  case (Suc k)
  then have lt: "i < m_loadedTextures s" by linarith
  show ?case
  proof (cases "tag (m_textureIDs s i) = tg")
    case True
    with lt have "FindTextureSlot_while s tg ts i False = (i, i, True)"
      by (subst FindTextureSlot_while.simps) simp
    with True lt show ?thesis by auto
  next
    case False
    with lt have step: "FindTextureSlot_while s tg ts i False
                          = FindTextureSlot_while s tg ts (i + 1) False"
      by (subst FindTextureSlot_while.simps) simp
    from Suc(2) have "k = nat (m_loadedTextures s - (i + 1))" by linarith
    from Suc(1) [OF this] False show ?thesis
      unfolding step by (rule scan_step)
  qed
qed

lemma FindTextureID_while_agrees:
  "(fst (FindTextureSlot_while s tg ts i False) = ts \<and>
    fst (FindTextureID_while s tg tid i False) = tid \<and>
    (\<forall>j. i \<le> j \<and> j < m_loadedTextures s \<longrightarrow> tag (m_textureIDs s j) \<noteq> tg))
   \<or> (i \<le> fst (FindTextureSlot_while s tg ts i False) \<and>
       fst (FindTextureID_while s tg tid i False) =
         sint (ID (m_textureIDs s (fst (FindTextureSlot_while s tg ts i False)))))"
proof (induction "nat (m_loadedTextures s - i)" arbitrary: i)
  case 0
  then have "\<not> i < m_loadedTextures s" by simp
  then show ?case by (auto simp add: FindTextureSlot_while.simps FindTextureID_while.simps)
next
  case (Suc k)
  then have lt: "i < m_loadedTextures s" by linarith
  show ?case
  proof (cases "tag (m_textureIDs s i) = tg")
    case True
    with lt have "FindTextureSlot_while s tg ts i False = (i, i, True)"
      "FindTextureID_while s tg tid i False = (sint (ID (m_textureIDs s i)), i, True)"
      by (subst FindTextureSlot_while.simps, simp, subst FindTextureID_while.simps, simp)
    then show ?thesis by simp
  next
    case False
    with lt have step: "FindTextureSlot_while s tg ts i False
                          = FindTextureSlot_while s tg ts (i + 1) False"
      "FindTextureID_while s tg tid i False = FindTextureID_while s tg tid (i + 1) False"
      by (subst FindTextureSlot_while.simps, simp, subst FindTextureID_while.simps, simp)
    from Suc(2) have "k = nat (m_loadedTextures s - (i + 1))" by linarith
    from Suc(1) [OF this] False show ?thesis
      unfolding step by (rule agree_step)
  qed
qed

lemma FindTextureSlot_char:
  "(FindTextureSlot s tg = - 1 \<longleftrightarrow>
      (\<forall>j. 0 \<le> j \<and> j < m_loadedTextures s \<longrightarrow> tag (m_textureIDs s j) \<noteq> tg))
   \<and> (FindTextureSlot s tg \<noteq> - 1 \<longrightarrow>
        0 \<le> FindTextureSlot s tg \<and> FindTextureSlot s tg < m_loadedTextures s \<and>
        tag (m_textureIDs s (FindTextureSlot s tg)) = tg \<and>
        (\<forall>j. 0 \<le> j \<and> j < FindTextureSlot s tg \<longrightarrow> tag (m_textureIDs s j) \<noteq> tg))"
proof -
  let ?r = "fst (FindTextureSlot_while s tg (- 1) 0 False)"
  from FindTextureSlot_while_scan [of s tg "- 1" 0]
  consider (miss) "?r = - 1"
      "\<forall>j. 0 \<le> j \<and> j < m_loadedTextures s \<longrightarrow> tag (m_textureIDs s j) \<noteq> tg"
    | (hit) "0 \<le> ?r" "?r < m_loadedTextures s" "tag (m_textureIDs s ?r) = tg"
      "\<forall>j. 0 \<le> j \<and> j < ?r \<longrightarrow> tag (m_textureIDs s j) \<noteq> tg"
    by blast
  then show ?thesis
  proof cases
    case miss
    then show ?thesis by (simp add: FindTextureSlot_def)
  next
    case hit
    from hit(1) have "?r \<noteq> - 1" by linarith
    moreover from hit(1-3)
    have "\<not> (\<forall>j. 0 \<le> j \<and> j < m_loadedTextures s \<longrightarrow> tag (m_textureIDs s j) \<noteq> tg)"
      by blast
    ultimately show ?thesis using hit by (simp add: FindTextureSlot_def)
  qed
qed

lemma FindTextureSlot_at:
  assumes "0 \<le> i" "i < m_loadedTextures s" "tag (m_textureIDs s i) = tg"
    and "\<forall>j. 0 \<le> j \<and> j < i \<longrightarrow> tag (m_textureIDs s j) \<noteq> tg"
  shows "FindTextureSlot s tg = i"
proof -
  let ?r = "FindTextureSlot s tg"
  note c = FindTextureSlot_char [of s tg]
  from c assms(1-3) have "?r \<noteq> - 1" by blast
  with c have r: "0 \<le> ?r" "tag (m_textureIDs s ?r) = tg"
    and before: "\<forall>j. 0 \<le> j \<and> j < ?r \<longrightarrow> tag (m_textureIDs s j) \<noteq> tg"
    by simp_all
  from before assms(1,3) have "\<not> i < ?r" by blast
  moreover from assms(4) r have "\<not> ?r < i" by blast
  ultimately show ?thesis by linarith
qed

lemma FindTexture_agree:
  "(FindTextureSlot s tg = - 1 \<longrightarrow> FindTextureID s tg = - 1) \<and>
   (0 \<le> FindTextureSlot s tg \<longrightarrow>
      FindTextureID s tg = sint (ID (m_textureIDs s (FindTextureSlot s tg))) \<and>
      word_of_int (FindTextureID s tg) = ID (m_textureIDs s (FindTextureSlot s tg)))"
proof -
  let ?r = "fst (FindTextureSlot_while s tg (- 1) 0 False)"
  let ?q = "fst (FindTextureID_while s tg (- 1) 0 False)"
  have conv: "word_of_int (sint w) = w" for w :: GLuint
    by simp
  from FindTextureID_while_agrees [of s tg "- 1" 0 "- 1"]
  consider (miss) "?r = - 1" "?q = - 1"
    | (hit) "0 \<le> ?r" "?q = sint (ID (m_textureIDs s ?r))"
    by blast
  then show ?thesis
  proof cases
    case miss
    then show ?thesis by (simp add: FindTextureSlot_def FindTextureID_def)
  next
    case hit
    from hit(1) have "?r \<noteq> - 1" by linarith
    with hit show ?thesis by (simp add: FindTextureSlot_def FindTextureID_def conv)
  qed
qed

section \<open>Loading textures\<close>

lemma CreateGLTexture_success:
  assumes "decodes stbi_load filename"
  shows "fst (CreateGLTexture stbi_load filename tg s) = True"
    and "m_loadedTextures (snd (CreateGLTexture stbi_load filename tg s)) = m_loadedTextures s + 1"
    and "m_textureIDs (snd (CreateGLTexture stbi_load filename tg s)) =
           (m_textureIDs s)(m_loadedTextures s := \<lparr>tag = tg, ID = next_name (gl s)\<rparr>)"
    and "m_pShaderManager (snd (CreateGLTexture stbi_load filename tg s)) = m_pShaderManager s"
    and "next_name (gl (snd (CreateGLTexture stbi_load filename tg s))) = next_name (gl s) + 1"
  using assms
  by (auto simp: decodes_def CreateGLTexture_def gen_texture_def issue_def Let_def
           split: option.splits)

lemma CreateGLTexture_failure:
  assumes "\<not> decodes stbi_load filename"
  shows "fst (CreateGLTexture stbi_load filename tg s) = False"
    and "m_loadedTextures (snd (CreateGLTexture stbi_load filename tg s)) = m_loadedTextures s"
    and "m_textureIDs (snd (CreateGLTexture stbi_load filename tg s)) = m_textureIDs s"
  using assms
  by (auto simp: decodes_def CreateGLTexture_def gen_texture_def issue_def Let_def
           split: option.splits)

text \<open>
  After a run of loads that all succeed, the count has grown by their number, the new
  cells carry the tags in load order, and the cells below the old count are untouched.
  Nothing bounds the count; when it ends above 16 the lemma speaks of writes outside the
  array.
\<close>

lemma load_sequence_cells:
  assumes "\<forall>x \<in> set xs. decodes stbi_load (fst x)"
  shows "m_loadedTextures (load_sequence stbi_load xs s) = m_loadedTextures s + int (length xs)
     \<and> (\<forall>i < length xs.
           tag (m_textureIDs (load_sequence stbi_load xs s) (m_loadedTextures s + int i))
             = snd (xs ! i))
     \<and> (\<forall>j < m_loadedTextures s. m_textureIDs (load_sequence stbi_load xs s) j = m_textureIDs s j)
     \<and> m_pShaderManager (load_sequence stbi_load xs s) = m_pShaderManager s"
  using assms
proof (induction xs arbitrary: s)
  case Nil
  then show ?case by simp
next
  case (Cons x xs)
  obtain filename tg where x: "x = (filename, tg)" by (cases x)
  let ?s1 = "snd (CreateGLTexture stbi_load filename tg s)"
  from Cons.prems x have d: "decodes stbi_load filename" by simp
  note step = CreateGLTexture_success [OF d, of tg s]
  from Cons.prems have "\<forall>x \<in> set xs. decodes stbi_load (fst x)" by simp
  note ih = Cons.IH [OF this, of ?s1]
  have count: "m_loadedTextures (load_sequence stbi_load (x # xs) s)
                 = m_loadedTextures s + int (length (x # xs))"
    using ih step by (simp add: x)
  have old: "\<forall>j < m_loadedTextures s.
               m_textureIDs (load_sequence stbi_load (x # xs) s) j = m_textureIDs s j"
    using ih step by (simp add: x)
  have new: "tag (m_textureIDs (load_sequence stbi_load (x # xs) s) (m_loadedTextures s + int i))
               = snd ((x # xs) ! i)" if "i < length (x # xs)" for i
  proof (cases i)
    case 0
    then show ?thesis using ih step by (simp add: x)
  next
    case (Suc k)
    with that have "k < length xs" by simp
    with ih have "tag (m_textureIDs (load_sequence stbi_load xs ?s1) (m_loadedTextures ?s1 + int k))
                    = snd (xs ! k)" by blast
    then show ?thesis using step Suc by (simp add: x add.assoc)
  qed
  show ?case using count old new ih step by (simp add: x)
qed

text \<open>
  In a state reached from the constructor by at most 16 loads that all succeed (every
  write is then inside the array), the count is the number of loads, a tag is found at its
  first position in the load order, and a tag that was never loaded is not found.
\<close>

lemma FindTextureSlot_load_sequence:
  assumes d: "\<forall>x \<in> set xs. decodes stbi_load (fst x)" and cap: "length xs \<le> 16"
  shows "m_loadedTextures (load_sequence stbi_load xs (SceneManager_ctor p beside ctx))
           = int (length xs)
        \<and> m_loadedTextures (load_sequence stbi_load xs (SceneManager_ctor p beside ctx)) \<le> 16
        \<and> (\<forall>i < length xs. (\<forall>j < i. snd (xs ! j) \<noteq> snd (xs ! i)) \<longrightarrow>
           FindTextureSlot (load_sequence stbi_load xs (SceneManager_ctor p beside ctx)) (snd (xs ! i))
             = int i)
        \<and> (tg \<notin> snd ` set xs \<longrightarrow>
           FindTextureSlot (load_sequence stbi_load xs (SceneManager_ctor p beside ctx)) tg = - 1)"
proof -
  let ?init = "SceneManager_ctor p beside ctx"
  let ?s = "load_sequence stbi_load xs ?init"
  have z: "m_loadedTextures ?init = 0" by (simp add: ctor_fields)
  from load_sequence_cells [OF d, of ?init] z
  have n: "m_loadedTextures ?s = int (length xs)"
    and cells: "\<And>i. i < length xs \<Longrightarrow> tag (m_textureIDs ?s (int i)) = snd (xs ! i)"
    by simp_all
  have first: "FindTextureSlot ?s (snd (xs ! i)) = int i"
    if i: "i < length xs" and least: "\<forall>j < i. snd (xs ! j) \<noteq> snd (xs ! i)" for i
  proof (rule FindTextureSlot_at)
    show "0 \<le> int i" by simp
    show "int i < m_loadedTextures ?s" using i n by simp
    show "tag (m_textureIDs ?s (int i)) = snd (xs ! i)" by (rule cells [OF i])
    show "\<forall>j. 0 \<le> j \<and> j < int i \<longrightarrow> tag (m_textureIDs ?s j) \<noteq> snd (xs ! i)"
    proof (intro allI impI)
      fix j :: int
      assume j: "0 \<le> j \<and> j < int i"
      then have ji: "nat j < i" and jj: "int (nat j) = j" by linarith+
      from ji i have "nat j < length xs" by simp
      from cells [OF this] jj have "tag (m_textureIDs ?s j) = snd (xs ! nat j)" by simp
      with least ji show "tag (m_textureIDs ?s j) \<noteq> snd (xs ! i)" by simp
    qed
  qed
  have absent: "FindTextureSlot ?s tg = - 1" if t: "tg \<notin> snd ` set xs"
  proof -
    have "tag (m_textureIDs ?s j) \<noteq> tg" if j: "0 \<le> j \<and> j < m_loadedTextures ?s" for j
    proof -
      from j n have jn: "nat j < length xs" and jj: "int (nat j) = j" by linarith+
      from cells [OF jn] jj have "tag (m_textureIDs ?s j) = snd (xs ! nat j)" by simp
      moreover from jn have "snd (xs ! nat j) \<in> snd ` set xs" by simp
      ultimately show ?thesis using t by metis
    qed
    with FindTextureSlot_char [of ?s tg] show ?thesis by blast
  qed
  from n cap have "m_loadedTextures ?s \<le> 16" by simp
  with n first absent show ?thesis by blast
qed

lemma three_loads_state:
  "m_loadedTextures three_loads = 3"
  "ID (m_textureIDs three_loads 0) = 1"
  "ID (m_textureIDs three_loads 1) = 2"
  "ID (m_textureIDs three_loads 2) = 3"
  "tag (m_textureIDs three_loads 0) = ''marbleFloor''"
  "tag (m_textureIDs three_loads 1) = ''berry''"
  "tag (m_textureIDs three_loads 2) = ''marbleFloor''"
proof -
  have d: "decodes rgb_decoder ''textures/marble.png''" "decodes rgb_decoder ''textures/berry.jpg''"
    "decodes rgb_decoder ''textures/marble2.png''"
    by (simp_all add: decodes_def rgb_decoder_def)
  show "m_loadedTextures three_loads = 3"
    "ID (m_textureIDs three_loads 0) = 1"
    "ID (m_textureIDs three_loads 1) = 2"
    "ID (m_textureIDs three_loads 2) = 3"
    "tag (m_textureIDs three_loads 0) = ''marbleFloor''"
    "tag (m_textureIDs three_loads 1) = ''berry''"
    "tag (m_textureIDs three_loads 2) = ''marbleFloor''"
    by (simp_all add: three_loads_def CreateGLTexture_success d fresh_scene_def ctor_fields
          fresh_context_def)
qed

text \<open>\<^verbatim>\<open>DestroyGLTextures\<close> never writes the count.\<close>

lemma DestroyGLTextures_keeps_count:
  "m_loadedTextures (DestroyGLTextures s) = m_loadedTextures s"
  unfolding DestroyGLTextures_def
  by (rule for_loop_invariant) (simp_all add: gen_texture_def split: prod.splits)

section \<open>Material lookup\<close>

lemma FindMaterial_while_found [simp]:
  "FindMaterial_while ms tg i True m = (i, True, m)"
  by (simp add: FindMaterial_while.simps)

lemma FindMaterial_while_miss:
  "\<forall>x \<in> set ms. mtag x \<noteq> tg \<Longrightarrow> snd (FindMaterial_while ms tg i False m) = (False, m)"
proof (induction "nat (int (length ms) - i)" arbitrary: i)
  case 0
  then show ?case by (simp add: FindMaterial_while.simps)
next
  case (Suc k)
  show ?case
  proof (cases "0 \<le> i")
    case True
    with Suc(2) have "nat i < length ms" by linarith
    with Suc(3) have "mtag (ms ! nat i) \<noteq> tg" by simp
    moreover from Suc(2) have "k = nat (int (length ms) - (i + 1))" by linarith
    ultimately show ?thesis
      using Suc(1) [of "i + 1"] Suc(3)
      by (subst FindMaterial_while.simps) simp
  next
    case False
    then show ?thesis by (simp add: FindMaterial_while.simps)
  qed
qed

lemma FindMaterial_while_hit:
  assumes "i \<le> k" "k < length ms" "mtag (ms ! k) = tg"
    and "\<forall>j. i \<le> j \<and> j < k \<longrightarrow> mtag (ms ! j) \<noteq> tg"
  shows "FindMaterial_while ms tg (int i) False m =
           (int k, True, m\<lparr>diffuseColor := diffuseColor (ms ! k),
                            specularColor := specularColor (ms ! k),
                            shininess := shininess (ms ! k)\<rparr>)"
  using assms
proof (induction "k - i" arbitrary: i)
  case 0
  then have "i = k" by simp
  with 0 show ?case by (subst FindMaterial_while.simps) simp
next
  case (Suc d)
  then have "i < k" by simp
  with Suc.prems have "mtag (ms ! i) \<noteq> tg" "i < length ms" by simp_all
  then have "FindMaterial_while ms tg (int i) False m = FindMaterial_while ms tg (int (Suc i)) False m"
    by (subst FindMaterial_while.simps) (simp add: add.commute)
  moreover from Suc(2) have "d = k - Suc i" by simp
  moreover from \<open>i < k\<close> have "Suc i \<le> k" by simp
  moreover from Suc.prems(4) have "\<forall>j. Suc i \<le> j \<and> j < k \<longrightarrow> mtag (ms ! j) \<noteq> tg" by simp
  ultimately show ?case using Suc(1) [of "Suc i"] Suc.prems(2,3) by simp
qed

text \<open>
  What \<^verbatim>\<open>FindMaterial\<close> does in each of its three situations: an empty list, a list with
  a match, a non-empty list without one.
\<close>

lemma FindMaterial_cases:
  "m_objectMaterials s = [] \<Longrightarrow> FindMaterial s tg m = (False, m)"
  "k < length (m_objectMaterials s) \<Longrightarrow> mtag (m_objectMaterials s ! k) = tg \<Longrightarrow>
     \<forall>j < k. mtag (m_objectMaterials s ! j) \<noteq> tg \<Longrightarrow>
     FindMaterial s tg m =
       (True, m\<lparr>diffuseColor := diffuseColor (m_objectMaterials s ! k),
                specularColor := specularColor (m_objectMaterials s ! k),
                shininess := shininess (m_objectMaterials s ! k)\<rparr>)"
  "m_objectMaterials s \<noteq> [] \<Longrightarrow> \<forall>x \<in> set (m_objectMaterials s). mtag x \<noteq> tg \<Longrightarrow>
     FindMaterial s tg m = (True, m)"
proof -
  show "FindMaterial s tg m = (False, m)" if "m_objectMaterials s = []"
    using that by (simp add: FindMaterial_def)
  show "FindMaterial s tg m =
       (True, m\<lparr>diffuseColor := diffuseColor (m_objectMaterials s ! k),
                specularColor := specularColor (m_objectMaterials s ! k),
                shininess := shininess (m_objectMaterials s ! k)\<rparr>)"
    if k: "k < length (m_objectMaterials s)" and t: "mtag (m_objectMaterials s ! k) = tg"
      and least: "\<forall>j < k. mtag (m_objectMaterials s ! j) \<noteq> tg"
  proof -
    from least have "\<forall>j. 0 \<le> j \<and> j < k \<longrightarrow> mtag (m_objectMaterials s ! j) \<noteq> tg" by simp
    from FindMaterial_while_hit [OF _ k t this, of m] k show ?thesis
      by (auto simp add: FindMaterial_def)
  qed
  show "FindMaterial s tg m = (True, m)"
    if "m_objectMaterials s \<noteq> []" and "\<forall>x \<in> set (m_objectMaterials s). mtag x \<noteq> tg"
    using that FindMaterial_while_miss [of "m_objectMaterials s" tg 0 m]
    by (auto simp add: FindMaterial_def split: prod.splits)
qed

section \<open>Lights\<close>

lemma decimal_digit: "n < 10 \<Longrightarrow> decimal n = [''0123456789'' ! n]"
  by (subst decimal.simps) simp

lemma to_string_0_3:
  "to_string 0 = ''0''" "to_string 1 = ''1''" "to_string 2 = ''2''" "to_string 3 = ''3''"
  by (simp_all add: to_string_def decimal_digit)

lemma SetupSceneLights_flags:
  assumes "m_pShaderManager s = Some sh"
  shows "pushed (SetupSceneLights G s) ''pointLights[0].bActive'' = Some (BoolV True)"
    and "pushed (SetupSceneLights G s) ''pointLights[1].bActive'' = Some (BoolV False)"
    and "pushed (SetupSceneLights G s) ''pointLights[2].bActive'' = Some (BoolV False)"
    and "pushed (SetupSceneLights G s) ''pointLights[3].bActive'' = Some (BoolV False)"
    and "pushed (SetupSceneLights G s) ''spotLight.bActive'' = Some (BoolV False)"
    and "pushed (SetupSceneLights G s) ''directionalLight.bActive'' = Some (BoolV True)"
  using assms
  by (simp_all add: pushed_def SetupSceneLights_def Let_def setBoolValue_def setVec3Value_def
        to_string_0_3 g_UseLightingName_def)

section \<open>The claims\<close>

text \<open>
  C1 (found flag of \<^verbatim>\<open>FindMaterial\<close>). The claim: the lookup returns found = true with the
  first matching material copied out exactly when some stored material has the tag, and
  found = false otherwise. The code at the material list that \<^verbatim>\<open>DefineObjectMaterials\<close>
  builds (one material, tagged ``default'') and the tag ``glass'': no material matches,
  the function returns true, and the caller's material is handed back as it came in.
\<close>

theorem FindMaterial_miss_returns_true:
  "FindMaterial (DefineObjectMaterials glm_symbolic blank_material fresh_scene) ''glass'' blank_material
     = (True, blank_material)"
proof -
  let ?s = "DefineObjectMaterials glm_symbolic blank_material fresh_scene"
  have ms: "m_objectMaterials ?s =
              [blank_material\<lparr>diffuseColor := vec3 1 1 1,
                              specularColor := vec3 (4 / 10) (4 / 10) (4 / 10),
                              shininess := 32, mtag := ''default''\<rparr>]"
    by (simp add: DefineObjectMaterials_def fresh_scene_def ctor_fields glm_symbolic_def)
  have "snd (FindMaterial_while (m_objectMaterials ?s) ''glass'' 0 False blank_material)
          = (False, blank_material)"
    by (rule FindMaterial_while_miss) (simp add: ms)
  then show ?thesis
    by (auto simp add: FindMaterial_def ms split: prod.splits)
qed

text \<open>
  C2 (the count stays within 16). The claim: no sequence of registry operations makes
  \<^verbatim>\<open>m_loadedTextures\<close> exceed 16. The code after seventeen successful loads from the
  constructor's state: the count is 17, and the seventeenth load wrote its tag at index
  16, past the last cell of the array.
\<close>

theorem seventeen_loads_overrun:
  "m_loadedTextures (load_sequence rgb_decoder
       (replicate 17 (''textures/marble.png'', ''marbleFloor'')) fresh_scene) = 17
   \<and> tag (m_textureIDs (load_sequence rgb_decoder
       (replicate 17 (''textures/marble.png'', ''marbleFloor'')) fresh_scene) 16) = ''marbleFloor''"
proof -
  let ?xs = "replicate 17 (''textures/marble.png'', ''marbleFloor'')"
  have d: "\<forall>x \<in> set ?xs. decodes rgb_decoder (fst x)"
    by (simp add: decodes_def rgb_decoder_def)
  have z: "m_loadedTextures fresh_scene = 0"
    by (simp add: fresh_scene_def ctor_fields)
  from load_sequence_cells [OF d, of fresh_scene]
  have "m_loadedTextures (load_sequence rgb_decoder ?xs fresh_scene) = 17"
    and "16 < length ?xs \<longrightarrow>
           tag (m_textureIDs (load_sequence rgb_decoder ?xs fresh_scene) (0 + int 16)) = snd (?xs ! 16)"
    using z by (simp, metis z)
  then show ?thesis by simp
qed

text \<open>
  C3 (release of the textures). The claim: after \<^verbatim>\<open>DestroyGLTextures\<close> every handle that
  a load allocated has been deleted and the count is zero. The code after one successful
  load from the constructor's state: the count is still 1, handle 1 is still allocated
  beside a new handle 2, the only call issued is \<open>glGenTextures\<close>, and slot 0 now holds
  the new handle.
\<close>

theorem DestroyGLTextures_allocates:
  "m_loadedTextures (DestroyGLTextures
      (snd (CreateGLTexture rgb_decoder ''textures/marble.png'' ''marbleFloor'' fresh_scene))) = 1
   \<and> textures (gl (snd (CreateGLTexture rgb_decoder ''textures/marble.png'' ''marbleFloor'' fresh_scene)))
       = [1]
   \<and> textures (gl (DestroyGLTextures
      (snd (CreateGLTexture rgb_decoder ''textures/marble.png'' ''marbleFloor'' fresh_scene)))) = [1, 2]
   \<and> calls (gl (DestroyGLTextures
      (snd (CreateGLTexture rgb_decoder ''textures/marble.png'' ''marbleFloor'' fresh_scene))))
       = calls (gl (snd (CreateGLTexture rgb_decoder ''textures/marble.png'' ''marbleFloor'' fresh_scene)))
         @ [glGenTextures 2]
   \<and> ID (m_textureIDs (DestroyGLTextures
      (snd (CreateGLTexture rgb_decoder ''textures/marble.png'' ''marbleFloor'' fresh_scene))) 0) = 2"
  by (simp add: DestroyGLTextures_def CreateGLTexture_def rgb_decoder_def gen_texture_def
        issue_def fresh_scene_def ctor_fields fresh_context_def Let_def)

text \<open>
  C4 as stated (all four point lights inactive after \<^verbatim>\<open>SetupSceneLights\<close>) fails: on the
  constructor's state the call leaves \<^verbatim>\<open>pointLights[0].bActive\<close> bound to true.
\<close>

theorem SetupSceneLights_point_light_0_active:
  "pushed (SetupSceneLights glm_symbolic fresh_scene) ''pointLights[0].bActive'' = Some (BoolV True)
   \<and> pushed (SetupSceneLights glm_symbolic fresh_scene) ''pointLights[0].bActive''
       \<noteq> Some (BoolV False)"
proof -
  have e: "m_pShaderManager fresh_scene = Some Map.empty"
    by (simp add: fresh_scene_def ctor_fields)
  from SetupSceneLights_flags(1) [OF e] show ?thesis by simp
qed

text \<open>
  C4, amended. Whatever the shader held before, a call of \<^verbatim>\<open>SetupSceneLights\<close> on a scene
  manager with a shader manager attached returns normally and leaves point lights 1, 2
  and 3 and the spot light inactive, and point light 0 and the directional light active.
\<close>

theorem SetupSceneLights_final_flags:
  "m_pShaderManager s = Some sh \<Longrightarrow>
     (\<exists>s'. SetupSceneLights G s = Inr s')
   \<and> pushed (SetupSceneLights G s) ''pointLights[0].bActive'' = Some (BoolV True)
   \<and> pushed (SetupSceneLights G s) ''pointLights[1].bActive'' = Some (BoolV False)
   \<and> pushed (SetupSceneLights G s) ''pointLights[2].bActive'' = Some (BoolV False)
   \<and> pushed (SetupSceneLights G s) ''pointLights[3].bActive'' = Some (BoolV False)
   \<and> pushed (SetupSceneLights G s) ''spotLight.bActive'' = Some (BoolV False)
   \<and> pushed (SetupSceneLights G s) ''directionalLight.bActive'' = Some (BoolV True)"
  using SetupSceneLights_flags [of s sh G]
  by (simp add: SetupSceneLights_def Let_def)

text \<open>C4, amended, on a scene whose shader already holds uniforms from an earlier call.\<close>

theorem SetupSceneLights_final_flags_witness:
  "m_pShaderManager (SetShaderColor 1 1 1 1 fresh_scene) \<noteq> None
   \<and> pushed (SetupSceneLights glm_symbolic (SetShaderColor 1 1 1 1 fresh_scene))
        ''pointLights[0].bActive'' = Some (BoolV True)
   \<and> pushed (SetupSceneLights glm_symbolic (SetShaderColor 1 1 1 1 fresh_scene))
        ''pointLights[3].bActive'' = Some (BoolV False)
   \<and> pushed (SetupSceneLights glm_symbolic (SetShaderColor 1 1 1 1 fresh_scene))
        ''spotLight.bActive'' = Some (BoolV False)
   \<and> pushed (SetupSceneLights glm_symbolic (SetShaderColor 1 1 1 1 fresh_scene))
        ''directionalLight.bActive'' = Some (BoolV True)"
proof -
  obtain sh where e: "m_pShaderManager (SetShaderColor 1 1 1 1 fresh_scene) = Some sh"
    by (simp add: SetShaderColor_def fresh_scene_def ctor_fields)
  from e SetupSceneLights_final_flags [OF e, of glm_symbolic] show ?thesis by simp
qed

text \<open>
  C5 (\<^verbatim>\<open>FindTextureSlot\<close> returns the first match). In every state whose count is within
  the 16 cells of the array, the result is \<open>-1\<close> exactly when no populated slot carries
  the tag, and otherwise it is the smallest index of a populated slot that does. In a
  state reached from the constructor by at most 16 loads that all succeed, the count is
  the number of loads (so within the array), a tag is found at the position of its first
  load (its insertion index when the tags are distinct, the lower index when a tag is
  loaded twice), and a tag never loaded gives \<open>-1\<close>. Past 16 loads the source writes
  outside the array and the theorem says nothing.
\<close>

theorem FindTextureSlot_first_match:
  "(m_loadedTextures s \<le> 16 \<longrightarrow>
      (FindTextureSlot s tg = - 1 \<longleftrightarrow>
         (\<forall>j. 0 \<le> j \<and> j < m_loadedTextures s \<longrightarrow> tag (m_textureIDs s j) \<noteq> tg))
      \<and> (FindTextureSlot s tg \<noteq> - 1 \<longrightarrow>
           0 \<le> FindTextureSlot s tg \<and> FindTextureSlot s tg < m_loadedTextures s \<and>
           FindTextureSlot s tg < 16 \<and>
           tag (m_textureIDs s (FindTextureSlot s tg)) = tg \<and>
           (\<forall>j. 0 \<le> j \<and> j < FindTextureSlot s tg \<longrightarrow> tag (m_textureIDs s j) \<noteq> tg)))
   \<and> ((\<forall>x \<in> set xs. decodes stbi_load (fst x)) \<and> length xs \<le> 16 \<longrightarrow>
        m_loadedTextures (load_sequence stbi_load xs (SceneManager_ctor p beside ctx))
          = int (length xs)
        \<and> m_loadedTextures (load_sequence stbi_load xs (SceneManager_ctor p beside ctx)) \<le> 16
        \<and> (\<forall>i < length xs. (\<forall>j < i. snd (xs ! j) \<noteq> snd (xs ! i)) \<longrightarrow>
             FindTextureSlot (load_sequence stbi_load xs (SceneManager_ctor p beside ctx))
               (snd (xs ! i)) = int i)
        \<and> (tg \<notin> snd ` set xs \<longrightarrow>
             FindTextureSlot (load_sequence stbi_load xs (SceneManager_ctor p beside ctx)) tg = - 1))"
proof -
  have lookup: "(FindTextureSlot s tg = - 1 \<longleftrightarrow>
         (\<forall>j. 0 \<le> j \<and> j < m_loadedTextures s \<longrightarrow> tag (m_textureIDs s j) \<noteq> tg))
      \<and> (FindTextureSlot s tg \<noteq> - 1 \<longrightarrow>
           0 \<le> FindTextureSlot s tg \<and> FindTextureSlot s tg < m_loadedTextures s \<and>
           FindTextureSlot s tg < 16 \<and>
           tag (m_textureIDs s (FindTextureSlot s tg)) = tg \<and>
           (\<forall>j. 0 \<le> j \<and> j < FindTextureSlot s tg \<longrightarrow> tag (m_textureIDs s j) \<noteq> tg))"
    if cap: "m_loadedTextures s \<le> 16"
  proof -
    note c = FindTextureSlot_char [of s tg]
    have "FindTextureSlot s tg < 16" if "FindTextureSlot s tg \<noteq> - 1"
    proof -
      from c that have "FindTextureSlot s tg < m_loadedTextures s" by blast
      with cap show ?thesis by linarith
    qed
    with c show ?thesis by blast
  qed
  from lookup FindTextureSlot_load_sequence [of xs stbi_load p beside ctx tg]
  show ?thesis by blast
qed

text \<open>
  C5 on three loads, the third repeating the first tag: the count is 3, ``marbleFloor''
  is found at slot 0, ``berry'' at slot 1, and ``brick'' is not found.
\<close>

theorem FindTextureSlot_first_match_witness:
  "decodes rgb_decoder ''textures/marble.png''
   \<and> decodes rgb_decoder ''textures/berry.jpg''
   \<and> decodes rgb_decoder ''textures/marble2.png''
   \<and> length [(''textures/marble.png'', ''marbleFloor''), (''textures/berry.jpg'', ''berry''),
              (''textures/marble2.png'', ''marbleFloor'')] \<le> 16
   \<and> m_loadedTextures three_loads = 3
   \<and> m_loadedTextures three_loads \<le> 16
   \<and> FindTextureSlot three_loads ''marbleFloor'' = 0
   \<and> FindTextureSlot three_loads ''berry'' = 1
   \<and> FindTextureSlot three_loads ''brick'' = - 1
   \<and> tag (m_textureIDs three_loads (FindTextureSlot three_loads ''berry'')) = ''berry''"
proof -
  let ?xs = "[(''textures/marble.png'', ''marbleFloor''), (''textures/berry.jpg'', ''berry''),
              (''textures/marble2.png'', ''marbleFloor'')]"
  have d: "\<forall>x \<in> set ?xs. decodes rgb_decoder (fst x)"
    by (simp add: decodes_def rgb_decoder_def)
  have len: "length ?xs \<le> 16" by simp
  note T = FindTextureSlot_first_match [of three_loads "''berry''" ?xs rgb_decoder
             "Some Map.empty" "\<lambda>i. \<lparr>tag = [], ID = 0\<rparr>" fresh_context]
  note U = FindTextureSlot_first_match [of three_loads "''brick''" ?xs rgb_decoder
             "Some Map.empty" "\<lambda>i. \<lparr>tag = [], ID = 0\<rparr>" fresh_context]
  from T d len have n: "m_loadedTextures three_loads = int (length ?xs)"
    and cap: "m_loadedTextures three_loads \<le> 16"
    and at: "\<forall>i < length ?xs. (\<forall>j < i. snd (?xs ! j) \<noteq> snd (?xs ! i)) \<longrightarrow>
           FindTextureSlot three_loads (snd (?xs ! i)) = int i"
    unfolding three_loads_def fresh_scene_def by blast+
  from n have n3: "m_loadedTextures three_loads = 3" by simp
  from at [rule_format, of 0] have m: "FindTextureSlot three_loads ''marbleFloor'' = 0" by simp
  from at [rule_format, of 1] have b: "FindTextureSlot three_loads ''berry'' = 1" by simp
  have nb: "''brick'' \<notin> snd ` set ?xs" by simp
  from U d len nb have k: "FindTextureSlot three_loads ''brick'' = - 1"
    unfolding three_loads_def fresh_scene_def by blast
  from T cap have "FindTextureSlot three_loads ''berry'' \<noteq> - 1 \<longrightarrow>
      tag (m_textureIDs three_loads (FindTextureSlot three_loads ''berry'')) = ''berry''"
    by blast
  with b have "tag (m_textureIDs three_loads (FindTextureSlot three_loads ''berry'')) = ''berry''"
    by simp
  with d len n3 cap m b k show ?thesis by simp
qed

text \<open>
  C6 (the model matrix). With a shader manager attached, \<^verbatim>\<open>SetTransformations\<close> binds the
  uniform ``model'' to the product the specification names, Translate(position) times
  RotateZ, RotateY and RotateX of the angles converted to radians times Scale(scale),
  each rotation about its unit axis, and leaves every other uniform as it was. This holds
  for whatever glm's functions compute.
\<close>

theorem SetTransformations_model_matrix:
  "m_pShaderManager s = Some sh \<Longrightarrow>
   m_pShaderManager
     (SetTransformations G scaleXYZ XrotationDegrees YrotationDegrees ZrotationDegrees positionXYZ s)
   = Some (sh(g_ModelName \<mapsto>
        Mat4V (spec_Compose G scaleXYZ XrotationDegrees YrotationDegrees ZrotationDegrees positionXYZ)))"
  by (simp add: SetTransformations_def setMat4Value_def spec_Compose_def spec_product_def
        spec_Translate_def spec_RotateX_def spec_RotateY_def spec_RotateZ_def spec_Scale_def
        spec_degToRad_def)

text \<open>
  C6 on scale (2,3,4), rotations 90, 0 and 45 degrees and position (1,0,-1): the matrix
  bound is the translation, then the rotations about z, y and x, then the scale.
\<close>

theorem SetTransformations_model_matrix_witness:
  "m_pShaderManager fresh_scene = Some Map.empty
   \<and> pushed (Inr (SetTransformations glm_symbolic (vec3 2 3 4) 90 0 45 (vec3 1 0 (- 1)) fresh_scene))
       ''model''
     = Some (Mat4V [Translate (vec3 1 0 (- 1)),
                    Rotate (45 * (355 / 113) / 180) (vec3 0 0 1),
                    Rotate 0 (vec3 0 1 0),
                    Rotate (90 * (355 / 113) / 180) (vec3 1 0 0),
                    Scale (vec3 2 3 4)])"
proof -
  have e: "m_pShaderManager fresh_scene = Some Map.empty"
    by (simp add: fresh_scene_def ctor_fields)
  from e SetTransformations_model_matrix [OF e, of glm_symbolic "vec3 2 3 4" 90 0 45 "vec3 1 0 (- 1)"]
  show ?thesis
    by (simp add: pushed_def g_ModelName_def glm_symbolic_def spec_Compose_def spec_product_def
        spec_Translate_def spec_RotateX_def spec_RotateY_def spec_RotateZ_def spec_Scale_def
        spec_degToRad_def)
qed

text \<open>
  C7 (one flag for colour and texture). With a shader manager attached,
  \<^verbatim>\<open>SetShaderColor\<close> binds \<^verbatim>\<open>bUseTexture\<close> to 0 (false) and \<^verbatim>\<open>SetShaderTexture\<close> binds it to
  1 (true) and binds the sampler \<^verbatim>\<open>objectTexture\<close> to \<^verbatim>\<open>FindTextureSlot\<close> of the tag. After
  one successful load tagged ``marbleFloor'' into a registry with no texture,
  \<^verbatim>\<open>SetShaderTexture\<close> of that tag gives flag 1 and sampler index 0.
\<close>

theorem SetShaderColor_SetShaderTexture_toggle:
  "m_pShaderManager s = Some sh \<Longrightarrow>
     pushed (Inr (SetShaderColor redColorValue greenColorValue blueColorValue alphaValue s))
       g_UseTextureName = Some (IntV 0)
   \<and> pushed (Inr (SetShaderTexture textureTag s)) g_UseTextureName = Some (IntV 1)
   \<and> pushed (Inr (SetShaderTexture textureTag s)) g_TextureValueName
       = Some (Sampler2DV (FindTextureSlot s textureTag))
   \<and> (m_loadedTextures s = 0 \<and> decodes stbi_load filename \<longrightarrow>
        fst (CreateGLTexture stbi_load filename ''marbleFloor'' s) = True
      \<and> pushed (Inr (SetShaderTexture ''marbleFloor''
                  (snd (CreateGLTexture stbi_load filename ''marbleFloor'' s))))
          g_UseTextureName = Some (IntV 1)
      \<and> pushed (Inr (SetShaderTexture ''marbleFloor''
                  (snd (CreateGLTexture stbi_load filename ''marbleFloor'' s))))
          g_TextureValueName = Some (Sampler2DV 0))"
proof -
  assume sh: "m_pShaderManager s = Some sh"
  have color: "pushed (Inr (SetShaderColor redColorValue greenColorValue blueColorValue alphaValue s))
                 g_UseTextureName = Some (IntV 0)"
    using sh
    by (simp add: pushed_def SetShaderColor_def setVec4Value_def setIntValue_def
          g_UseTextureName_def g_ColorValueName_def)
  have texture: "pushed (Inr (SetShaderTexture tg s')) g_UseTextureName = Some (IntV 1)
               \<and> pushed (Inr (SetShaderTexture tg s')) g_TextureValueName
                   = Some (Sampler2DV (FindTextureSlot s' tg))"
    if "m_pShaderManager s' = Some sh" for tg and s' :: "('a, 'b) SceneManager"
    using that
    by (simp add: pushed_def SetShaderTexture_def setSampler2DValue_def setIntValue_def
          g_UseTextureName_def g_TextureValueName_def)
  have scenario: "fst (CreateGLTexture stbi_load filename ''marbleFloor'' s) = True
      \<and> pushed (Inr (SetShaderTexture ''marbleFloor''
                  (snd (CreateGLTexture stbi_load filename ''marbleFloor'' s))))
          g_UseTextureName = Some (IntV 1)
      \<and> pushed (Inr (SetShaderTexture ''marbleFloor''
                  (snd (CreateGLTexture stbi_load filename ''marbleFloor'' s))))
          g_TextureValueName = Some (Sampler2DV 0)"
    if zero: "m_loadedTextures s = 0" and d: "decodes stbi_load filename"
  proof -
    let ?s1 = "snd (CreateGLTexture stbi_load filename ''marbleFloor'' s)"
    note ok = CreateGLTexture_success [OF d, of "''marbleFloor''" s]
    have sh1: "m_pShaderManager ?s1 = Some sh" using ok(4) sh by simp
    have "FindTextureSlot ?s1 ''marbleFloor'' = 0"
      by (rule FindTextureSlot_at) (use ok zero in simp_all)
    with texture [OF sh1, of "''marbleFloor''"] ok(1) show ?thesis by simp
  qed
  from color texture [OF sh] scenario show ?thesis by blast
qed

text \<open>C7 on the constructor's state and the file ``textures/marble.png''.\<close>

theorem SetShaderColor_SetShaderTexture_toggle_witness:
  "m_pShaderManager fresh_scene = Some Map.empty
   \<and> m_loadedTextures fresh_scene = 0
   \<and> decodes rgb_decoder ''textures/marble.png''
   \<and> pushed (Inr (SetShaderColor 1 0 0 1 fresh_scene)) ''bUseTexture'' = Some (IntV 0)
   \<and> pushed (Inr (SetShaderTexture ''brick'' fresh_scene)) ''bUseTexture'' = Some (IntV 1)
   \<and> pushed (Inr (SetShaderTexture ''marbleFloor''
               (snd (CreateGLTexture rgb_decoder ''textures/marble.png'' ''marbleFloor'' fresh_scene))))
       ''objectTexture'' = Some (Sampler2DV 0)"
proof -
  have e: "m_pShaderManager fresh_scene = Some Map.empty"
    by (simp add: fresh_scene_def ctor_fields)
  have z: "m_loadedTextures fresh_scene = 0"
    by (simp add: fresh_scene_def ctor_fields)
  have d: "decodes rgb_decoder ''textures/marble.png''"
    by (simp add: decodes_def rgb_decoder_def)
  from e z d
    SetShaderColor_SetShaderTexture_toggle [OF e, of 1 0 0 1 "''brick''" rgb_decoder
      "''textures/marble.png''"]
  show ?thesis
    by (simp add: g_UseTextureName_def g_TextureValueName_def)
qed

text \<open>
  C8 (a failed load consumes no slot). \<^verbatim>\<open>CreateGLTexture\<close> returns false exactly when
  the file cannot be decoded or the image has neither 3 nor 4 channels, and whenever it
  returns false the count and the whole slot table, tags and handles, are as before.
\<close>

theorem CreateGLTexture_failure_keeps_slots:
  "(fst (CreateGLTexture stbi_load filename tg s) = False \<longleftrightarrow>
      (stbi_load filename = None \<or>
       (\<exists>img. stbi_load filename = Some img \<and> colorChannels img \<noteq> 3 \<and> colorChannels img \<noteq> 4)))
   \<and> (fst (CreateGLTexture stbi_load filename tg s) = False \<longrightarrow>
        m_loadedTextures (snd (CreateGLTexture stbi_load filename tg s)) = m_loadedTextures s \<and>
        m_textureIDs (snd (CreateGLTexture stbi_load filename tg s)) = m_textureIDs s)"
proof (cases "decodes stbi_load filename")
  case True
  from CreateGLTexture_success(1) [OF True, of tg s] True show ?thesis
    by (auto simp: decodes_def split: option.splits)
next
  case False
  from CreateGLTexture_failure [OF False, of tg s] False show ?thesis
    by (auto simp: decodes_def split: option.splits)
qed

text \<open>
  C8 on a one-channel image and on a file that cannot be read: both loads return false
  and leave the count at 0; an RGB image loads.
\<close>

theorem CreateGLTexture_failure_keeps_slots_witness:
  "fst (CreateGLTexture rgb_decoder ''textures/gray.png'' ''gray'' fresh_scene) = False
   \<and> m_loadedTextures (snd (CreateGLTexture rgb_decoder ''textures/gray.png'' ''gray'' fresh_scene)) = 0
   \<and> m_textureIDs (snd (CreateGLTexture rgb_decoder ''textures/gray.png'' ''gray'' fresh_scene))
       = m_textureIDs fresh_scene
   \<and> fst (CreateGLTexture rgb_decoder ''textures/missing.png'' ''none'' fresh_scene) = False
   \<and> m_loadedTextures (snd (CreateGLTexture rgb_decoder ''textures/missing.png'' ''none'' fresh_scene)) = 0
   \<and> fst (CreateGLTexture rgb_decoder ''textures/marble.png'' ''marbleFloor'' fresh_scene) = True"
  using CreateGLTexture_failure_keeps_slots [of rgb_decoder "''textures/gray.png''" "''gray''" fresh_scene]
        CreateGLTexture_failure_keeps_slots [of rgb_decoder "''textures/missing.png''" "''none''" fresh_scene]
        CreateGLTexture_failure_keeps_slots [of rgb_decoder "''textures/marble.png''" "''marbleFloor''" fresh_scene]
  by (simp add: rgb_decoder_def fresh_scene_def ctor_fields)

text \<open>
  C9 (empty material list). With no material defined, \<^verbatim>\<open>SetShaderMaterial\<close> returns
  normally and the whole state, the shader's uniforms included, is as before.
\<close>

theorem SetShaderMaterial_empty_list:
  "m_objectMaterials s = [] \<Longrightarrow> SetShaderMaterial material0 materialTag s = Inr s"
  by (simp add: SetShaderMaterial_def)

text \<open>C9 on the constructor's state, whose material list is empty.\<close>

theorem SetShaderMaterial_empty_list_witness:
  "m_objectMaterials fresh_scene = []
   \<and> SetShaderMaterial blank_material ''default'' fresh_scene = Inr fresh_scene"
proof -
  have e: "m_objectMaterials fresh_scene = []"
    by (simp add: fresh_scene_def ctor_fields)
  from e SetShaderMaterial_empty_list [OF e] show ?thesis by simp
qed

text \<open>
  C10 (\<^verbatim>\<open>FindTextureID\<close> agrees with \<^verbatim>\<open>FindTextureSlot\<close>). When the slot lookup gives \<open>-1\<close>
  so does the handle lookup; when the slot lookup gives an index \<open>i \<ge> 0\<close>, the handle
  lookup gives the handle stored in slot \<open>i\<close>, converted from \<^verbatim>\<open>GLuint\<close> to \<^verbatim>\<open>int\<close>, and
  converting the result back gives the stored handle.
\<close>

theorem FindTextureID_agrees_with_FindTextureSlot:
  "(FindTextureSlot s tg = - 1 \<longrightarrow> FindTextureID s tg = - 1) \<and>
   (0 \<le> FindTextureSlot s tg \<longrightarrow>
      FindTextureID s tg = sint (ID (m_textureIDs s (FindTextureSlot s tg))) \<and>
      word_of_int (FindTextureID s tg) = ID (m_textureIDs s (FindTextureSlot s tg)))"
  by (rule FindTexture_agree)

text \<open>
  C10 on three loads: ``berry'' is in slot 1 with handle 2, ``brick'' is in no slot.
\<close>

theorem FindTextureID_agrees_with_FindTextureSlot_witness:
  "FindTextureSlot three_loads ''berry'' = 1 \<and> FindTextureID three_loads ''berry'' = 2
   \<and> FindTextureSlot three_loads ''brick'' = - 1 \<and> FindTextureID three_loads ''brick'' = - 1"
proof -
  have berry: "FindTextureSlot three_loads ''berry'' = 1"
  proof (rule FindTextureSlot_at)
    show "\<forall>j. 0 \<le> j \<and> j < 1 \<longrightarrow> tag (m_textureIDs three_loads j) \<noteq> ''berry''"
    proof (intro allI impI)
      fix j :: int
      assume "0 \<le> j \<and> j < 1"
      then have "j = 0" by linarith
      then show "tag (m_textureIDs three_loads j) \<noteq> ''berry''"
        by (simp add: three_loads_state)
    qed
  qed (simp_all add: three_loads_state)
  have "tag (m_textureIDs three_loads j) \<noteq> ''brick''"
    if "0 \<le> j \<and> j < m_loadedTextures three_loads" for j
  proof -
    from that have "j = 0 \<or> j = 1 \<or> j = 2"
      by (simp add: three_loads_state) linarith
    then show ?thesis by (auto simp: three_loads_state)
  qed
  with FindTextureSlot_char [of three_loads "''brick''"]
  have brick: "FindTextureSlot three_loads ''brick'' = - 1"
    by blast
  from berry brick
    FindTextureID_agrees_with_FindTextureSlot [of three_loads "''berry''"]
    FindTextureID_agrees_with_FindTextureSlot [of three_loads "''brick''"]
  show ?thesis by (simp add: three_loads_state)
qed

end
